theory Spec2Isabelle
  imports Complex_Main
begin

section \<open>Data model\<close>

text \<open>
  The repository holds two variants of one React component \<open>Dropdown\<close>: the variant of
  \<open>src/App.tsx\<close> keeps a four-valued \<open>DropdownStatus\<close> and writes the menu position into
  the inline style of the menu element; the second variant keeps a boolean \<open>isOpen\<close> and a
  \<open>menuPosition\<close> state. Definitions of the first variant end in \<open>4\<close>, those of the second
  in \<open>2\<close>.

  A JavaScript \<open>number\<close> that a layout measurement returns is a finite double; it is modelled
  as a rational number, so \<open>NaN\<close>, infinities, negative zero and rounding are not modelled.
  Record fields carry a prefix (\<open>opt_\<close>, \<open>rect_\<close>, \<open>pos_\<close>), since \<open>id\<close>, \<open>top\<close> and \<open>x\<close>
  would hide HOL names.
\<close>

record Option =
  opt_id :: string
  opt_label :: string

datatype DropdownStatus = CLOSED | OPEN | CLOSING | OPENING

definition OPEN_DROPDOWN_STATUSES :: "DropdownStatus list" where
  "OPEN_DROPDOWN_STATUSES = [OPEN, OPENING]"

definition CLOSED_DROPDOWN_STATUSES :: "DropdownStatus list" where
  "CLOSED_DROPDOWN_STATUSES = [CLOSED, CLOSING]"

text \<open>The fields of \<open>getBoundingClientRect()\<close> that the component reads.\<close>

record DOMRect =
  rect_x :: rat
  rect_top :: rat
  rect_bottom :: rat
  rect_width :: rat

text \<open>\<open>PositionCoordinates\<close> of the second variant: each field is \<open>number | null\<close>.\<close>

record PositionCoordinates =
  pos_top :: "rat option"
  pos_bottom :: "rat option"
  pos_left :: "rat option"
  pos_width :: "rat option"

text \<open>
  The first variant writes the strings \<open>`${n}px`\<close> into the inline style of the menu
  element; \<open>Px n\<close> stands for that string. The inline style maps a property name to its
  value, and a property that is not set maps to \<open>None\<close>.
\<close>

datatype CSSValue = Px rat

type_synonym CSSStyleDeclaration = "string \<rightharpoonup> CSSValue"

text \<open>
  \<open>style.setProperty(property, value)\<close>: a \<open>null\<close> value removes the property, any other
  value sets it.
\<close>

definition setProperty :: "string \<Rightarrow> CSSValue option \<Rightarrow> CSSStyleDeclaration \<Rightarrow> CSSStyleDeclaration" where
  "setProperty property v style = style(property := v)"

text \<open>
  The menu element \<open>menuRef.current\<close> of the first variant: the height that
  \<open>getBoundingClientRect()\<close> reports for it, and its inline style.
\<close>

record MenuElement =
  menu_height :: rat
  menu_style :: CSSStyleDeclaration

section \<open>Position computation\<close>

text \<open>\<open>n || 0\<close> on a number: the number itself unless it is falsy, that is, zero.\<close>

definition or_zero :: "rat \<Rightarrow> rat" where
  "or_zero n = (if n = 0 then 0 else n)"

text \<open>
  \<open>updateMenuCoordinates\<close> of \<open>src/App.tsx\<close>. \<open>dropdownRef\<close> is \<open>dropdownRef.current\<close>,
  given by the rectangle its \<open>getBoundingClientRect()\<close> returns, \<open>menuRef\<close> is
  \<open>menuRef.current\<close>, and \<open>None\<close> is the \<open>null\<close> of a ref whose element is not mounted.
  The function mutates the style of the menu element; the model returns the element.
\<close>

definition updateMenuCoordinates4 ::
  "DOMRect option \<Rightarrow> MenuElement option \<Rightarrow> rat \<Rightarrow> MenuElement option" where
  "updateMenuCoordinates4 dropdownRef menuRef innerHeight =
     (case dropdownRef of
        None \<Rightarrow> menuRef
      | Some dropdownRect \<Rightarrow>
          (case menuRef of
             None \<Rightarrow> menuRef
           | Some menu \<Rightarrow>
               (let menuHeight = or_zero (menu_height menu);
                    windowHeight = innerHeight;
                    shouldRenderMenuUpwards = (rect_bottom dropdownRect + menuHeight > windowHeight);
                    top = (if shouldRenderMenuUpwards then None else Some (Px (rect_bottom dropdownRect)));
                    bottom = (if shouldRenderMenuUpwards
                              then Some (Px (windowHeight - rect_top dropdownRect)) else None);
                    left = Some (Px (rect_x dropdownRect));
                    width = Some (Px (rect_width dropdownRect))
                in Some (menu\<lparr>menu_style :=
                     setProperty ''width'' width
                       (setProperty ''left'' left
                         (setProperty ''bottom'' bottom
                           (setProperty ''top'' top (menu_style menu))))\<rparr>))))"

text \<open>
  \<open>updateMenuCoordinates\<close> of the second variant. Here \<open>menuRef\<close> is \<open>menuRef.current\<close>
  given by its \<open>offsetHeight\<close>; only the trigger is checked for \<open>null\<close>, and a missing menu
  counts as height zero (\<open>menuRef.current?.offsetHeight || 0\<close>). The result is the
  \<open>menuPosition\<close> state after the call.
\<close>

definition updateMenuCoordinates2 ::
  "DOMRect option \<Rightarrow> rat option \<Rightarrow> rat \<Rightarrow> PositionCoordinates \<Rightarrow> PositionCoordinates" where
  "updateMenuCoordinates2 dropdownRef menuRef innerHeight menuPosition =
     (case dropdownRef of
        None \<Rightarrow> menuPosition
      | Some dropdownRect \<Rightarrow>
          (let menuHeight = (case menuRef of None \<Rightarrow> 0 | Some offsetHeight \<Rightarrow> or_zero offsetHeight);
               windowHeight = innerHeight;
               shouldRenderMenuUpwards = (rect_bottom dropdownRect + menuHeight > windowHeight)
           in \<lparr>pos_top = (if shouldRenderMenuUpwards then None else Some (rect_bottom dropdownRect)),
               pos_bottom = (if shouldRenderMenuUpwards
                             then Some (windowHeight - rect_top dropdownRect) else None),
               pos_left = Some (rect_x dropdownRect),
               pos_width = Some (rect_width dropdownRect)\<rparr>))"

section \<open>Rendering\<close>

text \<open>
  The text of the trigger: \<open>options.find(({ id }) => id === selectedOptionId)\<close>, then
  \<open>selectedOption?.label || "Select ..."\<close>. \<open>selectedOptionId\<close> is a string, or \<open>None\<close>
  for \<open>null\<close> and \<open>undefined\<close>, which equal no \<open>id\<close>. An empty label is falsy.
\<close>

definition selectedOption :: "Option list \<Rightarrow> string option \<Rightarrow> Option option" where
  "selectedOption options selectedOptionId =
     find (\<lambda>option. Some (opt_id option) = selectedOptionId) options"

definition triggerText :: "Option list \<Rightarrow> string option \<Rightarrow> string" where
  "triggerText options selectedOptionId =
     (case selectedOption options selectedOptionId of
        None \<Rightarrow> ''Select ...''
      | Some option \<Rightarrow> (if opt_label option = [] then ''Select ...'' else opt_label option))"

text \<open>
  The \<open>style\<close> object that \<open>DropdownMenu\<close> of the second variant renders:
  \<open>{position: "fixed", ...(left && { left }), ...(width && { width }), ...(top && { top }),
  ...(bottom && { bottom })}\<close>. \<open>spread name v\<close> is \<open>...(v && { name: v })\<close>: it adds the
  property only if \<open>v\<close> is truthy, that is, neither \<open>null\<close> nor zero.
\<close>

datatype StyleValue = Keyword string | Number rat

definition spread :: "string \<Rightarrow> rat option \<Rightarrow> (string \<rightharpoonup> StyleValue)" where
  "spread name v =
     (case v of
        None \<Rightarrow> Map.empty
      | Some n \<Rightarrow> (if n = 0 then Map.empty else [name \<mapsto> Number n]))"

definition menuStyle2 :: "PositionCoordinates \<Rightarrow> (string \<rightharpoonup> StyleValue)" where
  "menuStyle2 menuPosition =
     [''position'' \<mapsto> Keyword ''fixed'']
       ++ spread ''left'' (pos_left menuPosition)
       ++ spread ''width'' (pos_width menuPosition)
       ++ spread ''top'' (pos_top menuPosition)
       ++ spread ''bottom'' (pos_bottom menuPosition)"

text \<open>
  What a handler calls outside the component: the host's \<open>onSelect\<close> callback, and
  \<open>focus()\<close> on the element of one of the two refs. Neither variant calls \<open>focus()\<close>
  anywhere, so no handler below makes a \<open>Focus\<close> call.
\<close>

datatype Ref = DropdownRef | MenuRef

datatype Call = OnSelect Option | Focus Ref

text \<open>
  A button of the menu: its text, and the calls its \<open>onClick\<close> makes,
  \<open>() => onSelect({ id, label })\<close>.
\<close>

record MenuButton =
  button_text :: string
  button_onClick :: "Call list"

definition menuButtons :: "Option list \<Rightarrow> MenuButton list" where
  "menuButtons options =
     map (\<lambda>option. \<lparr>button_text = opt_label option,
                     button_onClick = [OnSelect \<lparr>opt_id = opt_id option, opt_label = opt_label option\<rparr>]\<rparr>)
       options"

text \<open>
  \<open>DropdownMenu\<close> of \<open>src/App.tsx\<close>: nothing in status \<open>CLOSED\<close>, otherwise the list
  with its class names and one button per option.
\<close>

record MenuView4 =
  menu_classes :: "string list"
  menu_buttons4 :: "MenuButton list"

definition DropdownMenu4 :: "Option list \<Rightarrow> DropdownStatus \<Rightarrow> MenuView4 option" where
  "DropdownMenu4 options dropdownStatus =
     (if dropdownStatus = CLOSED then None
      else Some \<lparr>menu_classes = [''dropdown-menu'']
                     @ (if dropdownStatus = OPENING then [''opening''] else [])
                     @ (if dropdownStatus = CLOSING then [''closing''] else []),
                 menu_buttons4 = menuButtons options\<rparr>)"

text \<open>\<open>DropdownMenu\<close> of the second variant: always a list, with the inline style.\<close>

record MenuView2 =
  menu_inline_style :: "string \<rightharpoonup> StyleValue"
  menu_buttons2 :: "MenuButton list"

definition DropdownMenu2 :: "Option list \<Rightarrow> PositionCoordinates \<Rightarrow> MenuView2" where
  "DropdownMenu2 options menuPosition =
     \<lparr>menu_inline_style = menuStyle2 menuPosition, menu_buttons2 = menuButtons options\<rparr>"

section \<open>Handlers of the first variant\<close>

text \<open>\<open>openDropdown\<close> and \<open>closeDropdown\<close>: the status each passes to \<open>setDropdownStatus\<close>.\<close>

definition openDropdown :: DropdownStatus where
  "openDropdown = OPENING"

definition closeDropdown :: DropdownStatus where
  "closeDropdown = CLOSING"

text \<open>The handlers map the status of the current render to the status they set.\<close>

definition onTriggerClick :: "DropdownStatus \<Rightarrow> DropdownStatus" where
  "onTriggerClick dropdownStatus =
     (if dropdownStatus \<in> set CLOSED_DROPDOWN_STATUSES then openDropdown
      else if dropdownStatus \<in> set OPEN_DROPDOWN_STATUSES then closeDropdown
      else dropdownStatus)"

text \<open>
  \<open>onTransitionEnd\<close>, the \<open>animationend\<close> listener: two tests in a row of the status of
  the render that registered it.
\<close>

definition onTransitionEnd :: "DropdownStatus \<Rightarrow> DropdownStatus" where
  "onTransitionEnd dropdownStatus =
     (let afterFirst = (if dropdownStatus = CLOSING then CLOSED else dropdownStatus)
      in if dropdownStatus = OPENING then OPEN else afterFirst)"

text \<open>
  A \<open>mousedown\<close> or \<open>touchstart\<close> event, given by what \<open>contains(event.target)\<close> answers on
  the menu element and on the trigger element.
\<close>

record PointerEvent =
  target_in_menu :: bool
  target_in_dropdown :: bool

definition listener4 ::
  "DOMRect option \<Rightarrow> MenuElement option \<Rightarrow> PointerEvent \<Rightarrow> DropdownStatus \<Rightarrow> DropdownStatus" where
  "listener4 dropdownRef menuRef event dropdownStatus =
     (if menuRef = None \<or> target_in_menu event \<or> (dropdownRef \<noteq> None \<and> target_in_dropdown event)
      then dropdownStatus
      else closeDropdown)"

section \<open>The first variant as a state machine\<close>

text \<open>
  The state between two events: the status, and the inline style of the menu element, which
  is \<open>None\<close> while no menu element is mounted. A \<open>Layout\<close> is what the browser reports when an
  event is handled: the rectangle of the trigger (the trigger button is rendered in every
  status, so \<open>dropdownRef.current\<close> is set), the height of a mounted menu, and
  \<open>window.innerHeight\<close>.
\<close>

record Dropdown4 =
  dropdownStatus :: DropdownStatus
  menuInlineStyle :: "CSSStyleDeclaration option"

record Layout =
  dropdownRect :: DOMRect
  menuHeight :: rat
  innerHeight :: rat

datatype Event = TriggerClick | OptionClick nat | PointerDown PointerEvent | Resize | AnimationEnd

definition init4 :: Dropdown4 where
  "init4 = \<lparr>dropdownStatus = CLOSED, menuInlineStyle = None\<rparr>"

definition menuRef4 :: "Layout \<Rightarrow> Dropdown4 \<Rightarrow> MenuElement option" where
  "menuRef4 lay s =
     (case menuInlineStyle s of
        None \<Rightarrow> None
      | Some style \<Rightarrow> Some \<lparr>menu_height = menuHeight lay, menu_style = style\<rparr>)"

text \<open>
  \<open>recompute4\<close> is a call of \<open>updateMenuCoordinates\<close> in the state: the refs are read and
  the style of the menu element, if any, is written.
\<close>

definition recompute4 :: "Layout \<Rightarrow> Dropdown4 \<Rightarrow> Dropdown4" where
  "recompute4 lay s =
     s\<lparr>menuInlineStyle :=
         (case updateMenuCoordinates4 (Some (dropdownRect lay)) (menuRef4 lay s) (innerHeight lay) of
            None \<Rightarrow> None
          | Some menu \<Rightarrow> Some (menu_style menu))\<rparr>"

text \<open>
  \<open>commit4\<close> is the render with a new status, committed to the DOM: \<open>DropdownMenu\<close> returns
  \<open>null\<close> in status \<open>CLOSED\<close>, so the menu element is removed; otherwise a menu element that
  is there is kept with its inline style, and a new one is mounted with no inline style.
  This is the state at the moment the menu mounts, before any effect has run.
\<close>

definition commit4 :: "Option list \<Rightarrow> DropdownStatus \<Rightarrow> Dropdown4 \<Rightarrow> Dropdown4" where
  "commit4 options status s =
     \<lparr>dropdownStatus = status,
      menuInlineStyle =
        (case DropdownMenu4 options status of
           None \<Rightarrow> None
         | Some view \<Rightarrow> (case menuInlineStyle s of None \<Rightarrow> Some Map.empty | Some style \<Rightarrow> Some style))\<rparr>"

text \<open>The layout effect, which runs after a commit that changed the status.\<close>

definition layoutEffect4 :: "Layout \<Rightarrow> Dropdown4 \<Rightarrow> Dropdown4" where
  "layoutEffect4 lay s =
     (if dropdownStatus s \<in> set OPEN_DROPDOWN_STATUSES then recompute4 lay s else s)"

text \<open>
  \<open>setDropdownStatus\<close>: setting the status it already has changes nothing; a new status is
  rendered and committed, and then the layout effect runs.
\<close>

definition setDropdownStatus :: "Option list \<Rightarrow> Layout \<Rightarrow> DropdownStatus \<Rightarrow> Dropdown4 \<Rightarrow> Dropdown4" where
  "setDropdownStatus options lay status s =
     (if status = dropdownStatus s then s else layoutEffect4 lay (commit4 options status s))"

definition resizeListener4 :: "Layout \<Rightarrow> Dropdown4 \<Rightarrow> Dropdown4" where
  "resizeListener4 lay s = recompute4 lay s"

text \<open>
  One event. The result is the list of calls made out of the component and the next state.
  The menu is rendered through a portal as a child of the trigger button, so a click on a
  button of the menu reaches, after the button's own \<open>onClick\<close>, the \<open>onClick\<close> of the
  trigger. A menu that is not rendered has no buttons, and the \<open>animationend\<close> listener is
  registered on the menu element only.
\<close>

fun step4 :: "Option list \<Rightarrow> Layout \<Rightarrow> Event \<Rightarrow> Dropdown4 \<Rightarrow> Call list \<times> Dropdown4" where
  "step4 options lay TriggerClick s =
     ([], setDropdownStatus options lay (onTriggerClick (dropdownStatus s)) s)"
| "step4 options lay (OptionClick i) s =
     (case DropdownMenu4 options (dropdownStatus s) of
        None \<Rightarrow> ([], s)
      | Some view \<Rightarrow>
          (if i < length (menu_buttons4 view)
           then (button_onClick (menu_buttons4 view ! i),
                 setDropdownStatus options lay (onTriggerClick (dropdownStatus s)) s)
           else ([], s)))"
| "step4 options lay (PointerDown event) s =
     ([], setDropdownStatus options lay
            (listener4 (Some (dropdownRect lay)) (menuRef4 lay s) event (dropdownStatus s)) s)"
| "step4 options lay Resize s = ([], resizeListener4 lay s)"
| "step4 options lay AnimationEnd s =
     (case menuInlineStyle s of
        None \<Rightarrow> ([], s)
      | Some style \<Rightarrow> ([], setDropdownStatus options lay (onTransitionEnd (dropdownStatus s)) s))"

fun run4 :: "Option list \<Rightarrow> (Layout \<times> Event) list \<Rightarrow> Dropdown4 \<Rightarrow> Dropdown4" where
  "run4 options [] s = s"
| "run4 options ((lay, ev) # evs) s = run4 options evs (snd (step4 options lay ev s))"

section \<open>The second variant as a state machine\<close>

record Dropdown2 =
  isOpen :: bool
  menuPosition :: PositionCoordinates

definition init2 :: Dropdown2 where
  "init2 = \<lparr>isOpen = False,
            menuPosition = \<lparr>pos_top = None, pos_bottom = None, pos_left = None, pos_width = None\<rparr>\<rparr>"

text \<open>
  What \<open>Dropdown\<close> renders below the trigger text: \<open>{isOpen && <DropdownMenu ... />}\<close>. The
  menu element, and with it \<open>menuRef.current\<close>, is there exactly when \<open>isOpen\<close> holds.
\<close>

definition renderedMenu2 :: "Option list \<Rightarrow> Dropdown2 \<Rightarrow> MenuView2 option" where
  "renderedMenu2 options s = (if isOpen s then Some (DropdownMenu2 options (menuPosition s)) else None)"

definition menuRef2 :: "Layout \<Rightarrow> Dropdown2 \<Rightarrow> rat option" where
  "menuRef2 lay s = (if isOpen s then Some (menuHeight lay) else None)"

definition recompute2 :: "Layout \<Rightarrow> Dropdown2 \<Rightarrow> Dropdown2" where
  "recompute2 lay s =
     s\<lparr>menuPosition :=
         updateMenuCoordinates2 (Some (dropdownRect lay)) (menuRef2 lay s) (innerHeight lay)
           (menuPosition s)\<rparr>"

text \<open>
  \<open>commit2\<close> is the render with a new \<open>isOpen\<close>, committed to the DOM: the menu is mounted
  with the \<open>menuPosition\<close> the state holds at that moment. The layout effect runs after it.
\<close>

definition commit2 :: "bool \<Rightarrow> Dropdown2 \<Rightarrow> Dropdown2" where
  "commit2 opened s = s\<lparr>isOpen := opened\<rparr>"

definition layoutEffect2 :: "Layout \<Rightarrow> Dropdown2 \<Rightarrow> Dropdown2" where
  "layoutEffect2 lay s = (if isOpen s then recompute2 lay s else s)"

definition setIsOpen :: "Layout \<Rightarrow> bool \<Rightarrow> Dropdown2 \<Rightarrow> Dropdown2" where
  "setIsOpen lay opened s =
     (if opened = isOpen s then s else layoutEffect2 lay (commit2 opened s))"

definition listener2 ::
  "DOMRect option \<Rightarrow> rat option \<Rightarrow> PointerEvent \<Rightarrow> bool \<Rightarrow> bool" where
  "listener2 dropdownRef menuRef event opened =
     (if menuRef = None \<or> target_in_menu event \<or> (dropdownRef \<noteq> None \<and> target_in_dropdown event)
      then opened
      else False)"

definition resizeListener2 :: "Layout \<Rightarrow> Dropdown2 \<Rightarrow> Dropdown2" where
  "resizeListener2 lay s = recompute2 lay s"

text \<open>
  One event of the second variant. The trigger's \<open>onClick\<close> is
  \<open>setIsOpen(prevState => !prevState)\<close>, and a click on a button of the menu reaches it as
  in the first variant. No \<open>animationend\<close> listener is registered.
\<close>

fun step2 :: "Option list \<Rightarrow> Layout \<Rightarrow> Event \<Rightarrow> Dropdown2 \<Rightarrow> Call list \<times> Dropdown2" where
  "step2 options lay TriggerClick s = ([], setIsOpen lay (\<not> isOpen s) s)"
| "step2 options lay (OptionClick i) s =
     (case renderedMenu2 options s of
        None \<Rightarrow> ([], s)
      | Some view \<Rightarrow>
          (if i < length (menu_buttons2 view)
           then (button_onClick (menu_buttons2 view ! i), setIsOpen lay (\<not> isOpen s) s)
           else ([], s)))"
| "step2 options lay (PointerDown event) s =
     ([], setIsOpen lay
            (listener2 (Some (dropdownRect lay)) (menuRef2 lay s) event (isOpen s)) s)"
| "step2 options lay Resize s = ([], resizeListener2 lay s)"
| "step2 options lay AnimationEnd s = ([], s)"


section \<open>Notions of the specification\<close>

text \<open>
  The state machine as the specification words it,
  \<open>closed --click--> opening --animation-end--> open --click--> closing --animation-end--> closed\<close>,
  with no other transition.
\<close>

definition spec_transition :: "DropdownStatus \<Rightarrow> Event \<Rightarrow> DropdownStatus option" where
  "spec_transition status ev =
     (if status = CLOSED \<and> ev = TriggerClick then Some OPENING
      else if status = OPENING \<and> ev = AnimationEnd then Some OPEN
      else if status = OPEN \<and> ev = TriggerClick then Some CLOSING
      else if status = CLOSING \<and> ev = AnimationEnd then Some CLOSED
      else None)"


definition oneAnchor4 :: "CSSStyleDeclaration \<Rightarrow> bool" where
  "oneAnchor4 style = ((style ''top'' = None) \<noteq> (style ''bottom'' = None))"

text \<open>
  A state of the first variant between two events is settled: a menu element is mounted
  exactly when the status is not \<open>CLOSED\<close>, and its style then has one anchor, a left offset
  and a width.
\<close>

definition settled4 :: "Dropdown4 \<Rightarrow> bool" where
  "settled4 s =
     (case menuInlineStyle s of
        None \<Rightarrow> dropdownStatus s = CLOSED
      | Some style \<Rightarrow> dropdownStatus s \<noteq> CLOSED \<and> oneAnchor4 style
                      \<and> style ''left'' \<noteq> None \<and> style ''width'' \<noteq> None)"


section \<open>Example inputs\<close>

text \<open>
  The two examples of the specification: a trigger \<open>{top: 500, bottom: 530}\<close> and a trigger
  \<open>{top: 580, bottom: 610}\<close>, each with a menu of height 40 in a window of height 600; and
  the list \<open>options\<close> that \<open>App\<close> passes to \<open>Dropdown\<close>.
\<close>

definition exampleBelow :: Layout where
  "exampleBelow =
     \<lparr>dropdownRect = \<lparr>rect_x = 16, rect_top = 500, rect_bottom = 530, rect_width = 240\<rparr>,
      menuHeight = 40, innerHeight = 600\<rparr>"

definition exampleAbove :: Layout where
  "exampleAbove =
     \<lparr>dropdownRect = \<lparr>rect_x = 16, rect_top = 580, rect_bottom = 610, rect_width = 240\<rparr>,
      menuHeight = 40, innerHeight = 600\<rparr>"

definition App_options :: "Option list" where
  "App_options =
     [\<lparr>opt_id = ''1'', opt_label = ''Option 1''\<rparr>, \<lparr>opt_id = ''2'', opt_label = ''Option 2''\<rparr>,
      \<lparr>opt_id = ''3'', opt_label = ''Option 3''\<rparr>, \<lparr>opt_id = ''4'', opt_label = ''Option 4''\<rparr>,
      \<lparr>opt_id = ''5'', opt_label = ''Option 5''\<rparr>, \<lparr>opt_id = ''6'', opt_label = ''Option 6''\<rparr>,
      \<lparr>opt_id = ''7'', opt_label = ''Option 7''\<rparr>, \<lparr>opt_id = ''8'', opt_label = ''Option 8''\<rparr>]"

section \<open>Basic facts\<close>


lemma menuButtons_nth:
  "i < length options \<Longrightarrow> button_onClick (menuButtons options ! i) = [OnSelect (options ! i)]"
  by (simp add: menuButtons_def)

lemma length_menuButtons: "length (menuButtons options) = length options"
  by (simp add: menuButtons_def)

lemma selectedOption_none:
  "\<forall>option \<in> set options. Some (opt_id option) \<noteq> sel \<Longrightarrow> selectedOption options sel = None"
  by (simp add: selectedOption_def find_None_iff)

lemma selectedOption_first:
  "\<forall>option \<in> set before. Some (opt_id option) \<noteq> sel \<Longrightarrow> Some (opt_id match) = sel
   \<Longrightarrow> selectedOption (before @ match # after) sel = Some match"
  by (induction before) (simp_all add: selectedOption_def)

section \<open>Settled states of the first variant\<close>

text \<open>
  Every state that a sequence of events reaches from the initial state is settled. The one
  way to break this, setting \<open>CLOSING\<close> in status \<open>CLOSED\<close>, is one that no handler takes.
\<close>

lemma recompute4_status: "dropdownStatus (recompute4 lay s) = dropdownStatus s"
  by (simp add: recompute4_def)

lemma recompute4_mounted:
  "menuInlineStyle s = Some style \<Longrightarrow>
   \<exists>style'. menuInlineStyle (recompute4 lay s) = Some style'
     \<and> oneAnchor4 style'
     \<and> style' ''left'' = Some (Px (rect_x (dropdownRect lay)))
     \<and> style' ''width'' = Some (Px (rect_width (dropdownRect lay)))"
  by (simp add: recompute4_def menuRef4_def updateMenuCoordinates4_def setProperty_def
        oneAnchor4_def Let_def)

lemma recompute4_unmounted:
  "menuInlineStyle s = None \<Longrightarrow> recompute4 lay s = s"
  by (simp add: recompute4_def menuRef4_def updateMenuCoordinates4_def)

lemma recompute4_settled: "settled4 s \<Longrightarrow> settled4 (recompute4 lay s)"
proof (cases "menuInlineStyle s")
  case None
  assume "settled4 s"
  with None show ?thesis by (simp add: recompute4_unmounted)
next
  case (Some style)
  assume a: "settled4 s"
  from recompute4_mounted [OF Some, of lay] obtain style' where
    "menuInlineStyle (recompute4 lay s) = Some style'" "oneAnchor4 style'"
    "style' ''left'' \<noteq> None" "style' ''width'' \<noteq> None" by auto
  with a Some show ?thesis by (simp add: settled4_def recompute4_status)
qed

lemma commit4_status: "dropdownStatus (commit4 options status s) = status"
  by (simp add: commit4_def)

lemma commit4_mounted:
  "status \<noteq> CLOSED \<Longrightarrow> \<exists>style. menuInlineStyle (commit4 options status s) = Some style"
  by (simp add: commit4_def DropdownMenu4_def split: option.splits)

lemma commit4_keeps:
  "status \<noteq> CLOSED \<Longrightarrow> menuInlineStyle s = Some style
   \<Longrightarrow> commit4 options status s = s\<lparr>dropdownStatus := status\<rparr>"
  by (simp add: commit4_def DropdownMenu4_def)

lemma commit4_CLOSED: "commit4 options CLOSED s = init4"
  by (simp add: commit4_def DropdownMenu4_def init4_def)

lemma setDropdownStatus_status:
  "dropdownStatus (setDropdownStatus options lay status s) = status"
  by (simp add: setDropdownStatus_def layoutEffect4_def commit4_status recompute4_status)

lemma setDropdownStatus_settled:
  assumes "settled4 s" and "status = CLOSING \<Longrightarrow> dropdownStatus s \<noteq> CLOSED"
  shows "settled4 (setDropdownStatus options lay status s)"
proof (cases "status = dropdownStatus s")
  case True
  with assms show ?thesis by (simp add: setDropdownStatus_def)
next
  case changed: False
  let ?c = "commit4 options status s"
  show ?thesis
  proof (cases "status = CLOSED")
    case True
    then show ?thesis using changed
      by (simp add: setDropdownStatus_def layoutEffect4_def commit4_CLOSED init4_def
            OPEN_DROPDOWN_STATUSES_def settled4_def)
  next
    case notClosed: False
    show ?thesis
    proof (cases "status \<in> set OPEN_DROPDOWN_STATUSES")
      case True
      from commit4_mounted [OF notClosed] obtain style where
        "menuInlineStyle ?c = Some style" by blast
      from recompute4_mounted [OF this, of lay] obtain style' where
        "menuInlineStyle (recompute4 lay ?c) = Some style'" "oneAnchor4 style'"
        "style' ''left'' \<noteq> None" "style' ''width'' \<noteq> None" by auto
      with True changed notClosed show ?thesis
        by (simp add: setDropdownStatus_def layoutEffect4_def settled4_def recompute4_status
              commit4_status)
    next
      case False
      with notClosed have closing: "status = CLOSING"
        by (cases status) (simp_all add: OPEN_DROPDOWN_STATUSES_def)
      with assms obtain style where st: "menuInlineStyle s = Some style"
        by (auto simp add: settled4_def split: option.splits)
      from commit4_keeps [OF notClosed st] changed False assms(1) st closing show ?thesis
        by (simp add: setDropdownStatus_def layoutEffect4_def settled4_def)
    qed
  qed
qed

lemma onTriggerClick_CLOSING: "onTriggerClick status = CLOSING \<Longrightarrow> status \<noteq> CLOSED"
  by (auto simp add: onTriggerClick_def CLOSED_DROPDOWN_STATUSES_def openDropdown_def)

lemma onTransitionEnd_CLOSING: "onTransitionEnd status = CLOSING \<Longrightarrow> status \<noteq> CLOSED"
  by (auto simp add: onTransitionEnd_def Let_def split: if_splits)

lemma listener4_CLOSING:
  "settled4 s \<Longrightarrow> listener4 dropdownRef (menuRef4 lay s) event (dropdownStatus s) = CLOSING
   \<Longrightarrow> dropdownStatus s \<noteq> CLOSED"
  by (auto simp add: listener4_def menuRef4_def settled4_def split: if_splits option.splits)

lemma step4_settled: "settled4 s \<Longrightarrow> settled4 (snd (step4 options lay ev s))"
proof (cases ev)
  case TriggerClick
  assume "settled4 s"
  with TriggerClick show ?thesis
    by (simp add: setDropdownStatus_settled onTriggerClick_CLOSING)
next
  case (OptionClick i)
  assume "settled4 s"
  with OptionClick show ?thesis
    by (simp add: setDropdownStatus_settled onTriggerClick_CLOSING split: option.splits)
next
  case (PointerDown event)
  assume "settled4 s"
  with PointerDown show ?thesis
    by (simp add: setDropdownStatus_settled listener4_CLOSING)
next
  case Resize
  assume "settled4 s"
  with Resize show ?thesis by (simp add: resizeListener4_def recompute4_settled)
next
  case AnimationEnd
  assume "settled4 s"
  with AnimationEnd show ?thesis
    by (simp add: setDropdownStatus_settled onTransitionEnd_CLOSING split: option.splits)
qed

lemma run4_settled: "settled4 s \<Longrightarrow> settled4 (run4 options evs s)"
  by (induction evs arbitrary: s) (auto simp add: step4_settled)

lemma reachable4_settled: "settled4 (run4 options evs init4)"
  by (rule run4_settled) (simp add: settled4_def init4_def)

lemma settled4_mounted:
  "settled4 s \<Longrightarrow> dropdownStatus s \<noteq> CLOSED \<Longrightarrow>
   \<exists>style. menuInlineStyle s = Some style \<and> oneAnchor4 style"
  by (auto simp add: settled4_def split: option.splits)

section \<open>Settled states of the second variant\<close>

lemma recompute2_isOpen: "isOpen (recompute2 lay s) = isOpen s"
  by (simp add: recompute2_def)



lemma setIsOpen_isOpen: "isOpen (setIsOpen lay opened s) = opened"
  by (simp add: setIsOpen_def layoutEffect2_def commit2_def recompute2_isOpen)





section \<open>The position computation\<close>



text \<open>
  Claim C9, as the code has it. In the first variant a recompute with the trigger or the
  menu not mounted changes nothing. In the second variant a recompute with the trigger not
  mounted changes nothing; with the trigger mounted and the menu not mounted it stores the
  position computed for a menu of height zero. No branch of either function can throw.
\<close>

theorem C9_unmounted_recompute:
  "(dropdownRef = None \<or> menuRef = None \<longrightarrow> updateMenuCoordinates4 dropdownRef menuRef W = menuRef)
   \<and> updateMenuCoordinates2 None offsetHeight W p = p
   \<and> updateMenuCoordinates2 (Some r) None W p =
       \<lparr>pos_top = (if rect_bottom r \<le> W then Some (rect_bottom r) else None),
        pos_bottom = (if rect_bottom r \<le> W then None else Some (W - rect_top r)),
        pos_left = Some (rect_x r), pos_width = Some (rect_width r)\<rparr>"
  by (auto simp add: updateMenuCoordinates2_def updateMenuCoordinates4_def split: option.splits)

theorem C9_unmounted_recompute_witness:
  "updateMenuCoordinates4 None (Some \<lparr>menu_height = 40, menu_style = Map.empty\<rparr>) 600
     = Some \<lparr>menu_height = 40, menu_style = Map.empty\<rparr>
   \<and> updateMenuCoordinates4 (Some (dropdownRect exampleBelow)) None 600 = None"
  using C9_unmounted_recompute [of None "Some \<lparr>menu_height = 40, menu_style = Map.empty\<rparr>" 600]
     C9_unmounted_recompute [of "Some (dropdownRect exampleBelow)" None 600]
  by simp

text \<open>
  The claim as the specification words it fails in the second variant: a resize before the
  menu was ever opened finds no menu element, and yet the stored position changes.
\<close>

theorem C9_counterexample:
  "menuRef2 exampleBelow init2 = None
   \<and> menuPosition (snd (step2 App_options exampleBelow Resize init2)) \<noteq> menuPosition init2"
  by (simp add: menuRef2_def init2_def resizeListener2_def recompute2_def
        updateMenuCoordinates2_def exampleBelow_def)

section \<open>Rendering\<close>

text \<open>
  Claim C10. The popup of the second variant tests each coordinate by truthiness: a
  coordinate that is \<open>0\<close> is left out of the rendered inline style.
\<close>

theorem C10_zero_omitted:
  "(pos_left p = Some 0 \<longrightarrow> menu_inline_style (DropdownMenu2 options p) ''left'' = None)
   \<and> (pos_width p = Some 0 \<longrightarrow> menu_inline_style (DropdownMenu2 options p) ''width'' = None)
   \<and> (pos_top p = Some 0 \<longrightarrow> menu_inline_style (DropdownMenu2 options p) ''top'' = None)
   \<and> (pos_bottom p = Some 0 \<longrightarrow> menu_inline_style (DropdownMenu2 options p) ''bottom'' = None)"
  by (simp add: DropdownMenu2_def menuStyle2_def spread_def map_add_def split: option.splits)

theorem C10_zero_omitted_witness:
  "menu_inline_style (DropdownMenu2 App_options
      \<lparr>pos_top = Some 0, pos_bottom = Some 0, pos_left = Some 0, pos_width = Some 0\<rparr>) ''left'' = None
   \<and> menu_inline_style (DropdownMenu2 App_options
      \<lparr>pos_top = Some 0, pos_bottom = Some 0, pos_left = Some 0, pos_width = Some 0\<rparr>) ''width'' = None
   \<and> menu_inline_style (DropdownMenu2 App_options
      \<lparr>pos_top = Some 0, pos_bottom = Some 0, pos_left = Some 0, pos_width = Some 0\<rparr>) ''top'' = None
   \<and> menu_inline_style (DropdownMenu2 App_options
      \<lparr>pos_top = Some 0, pos_bottom = Some 0, pos_left = Some 0, pos_width = Some 0\<rparr>) ''bottom'' = None"
  using C10_zero_omitted
    [of "\<lparr>pos_top = Some 0, pos_bottom = Some 0, pos_left = Some 0, pos_width = Some 0\<rparr>" App_options]
  by simp

text \<open>
  Claim C5, as the code has it. If no option has the selected id, the trigger shows the
  placeholder. If some option has it, the trigger shows the label of the first such option
  when that label is not empty, and the placeholder when it is empty.
\<close>

theorem C5_trigger_text:
  "((\<forall>option \<in> set options. Some (opt_id option) \<noteq> selectedOptionId)
      \<longrightarrow> triggerText options selectedOptionId = ''Select ...'')
   \<and> ((\<forall>option \<in> set before. Some (opt_id option) \<noteq> selectedOptionId)
        \<and> Some (opt_id match) = selectedOptionId \<and> options = before @ match # after
      \<longrightarrow> triggerText options selectedOptionId
            = (if opt_label match = [] then ''Select ...'' else opt_label match))"
  by (auto simp add: triggerText_def selectedOption_none selectedOption_first)

theorem C5_trigger_text_witness:
  "triggerText App_options (Some ''9'') = ''Select ...''
   \<and> triggerText App_options None = ''Select ...''
   \<and> triggerText App_options (Some ''2'') = ''Option 2''"
  using C5_trigger_text [of App_options "Some ''9''"]
    C5_trigger_text [of App_options None]
    C5_trigger_text [of App_options "Some ''2''" "[\<lparr>opt_id = ''1'', opt_label = ''Option 1''\<rparr>]"
      "\<lparr>opt_id = ''2'', opt_label = ''Option 2''\<rparr>" "drop 2 App_options"]
  by (simp add: App_options_def)

text \<open>
  The claim as the specification words it fails for an option with an empty label: the
  option is found, and the trigger shows the placeholder, not the label.
\<close>

theorem C5_counterexample:
  "selectedOption [\<lparr>opt_id = ''1'', opt_label = []\<rparr>] (Some ''1'')
     = Some \<lparr>opt_id = ''1'', opt_label = []\<rparr>
   \<and> triggerText [\<lparr>opt_id = ''1'', opt_label = []\<rparr>] (Some ''1'') = ''Select ...''
   \<and> triggerText [\<lparr>opt_id = ''1'', opt_label = []\<rparr>] (Some ''1'')
       \<noteq> opt_label \<lparr>opt_id = ''1'', opt_label = []\<rparr>"
  by (simp add: selectedOption_def triggerText_def)

text \<open>
  Claim C6. While the menu is rendered (any status but \<open>CLOSED\<close>, or \<open>isOpen\<close>), a click
  on the button of the option at index \<open>i\<close> calls \<open>onSelect\<close> once, with that option, and
  makes no other call.
\<close>

theorem C6_onSelect_once:
  "i < length options \<Longrightarrow>
     (dropdownStatus s \<noteq> CLOSED \<longrightarrow> fst (step4 options lay (OptionClick i) s) = [OnSelect (options ! i)])
   \<and> (isOpen t \<longrightarrow> fst (step2 options lay (OptionClick i) t) = [OnSelect (options ! i)])"
  by (simp add: DropdownMenu4_def renderedMenu2_def DropdownMenu2_def menuButtons_nth length_menuButtons)

theorem C6_onSelect_once_witness:
  "fst (step4 App_options exampleBelow (OptionClick 2) \<lparr>dropdownStatus = CLOSING, menuInlineStyle = Some Map.empty\<rparr>)
     = [OnSelect \<lparr>opt_id = ''3'', opt_label = ''Option 3''\<rparr>]
   \<and> fst (step2 App_options exampleBelow (OptionClick 2) \<lparr>isOpen = True, menuPosition = menuPosition init2\<rparr>)
     = [OnSelect \<lparr>opt_id = ''3'', opt_label = ''Option 3''\<rparr>]"
  using C6_onSelect_once [where i = 2 and options = App_options and lay = exampleBelow
     and s = "\<lparr>dropdownStatus = CLOSING, menuInlineStyle = Some Map.empty\<rparr>"
     and t = "\<lparr>isOpen = True, menuPosition = menuPosition init2\<rparr>"]
  by (simp add: App_options_def)

section \<open>Events\<close>

lemma setIsOpen_close: "isOpen t \<Longrightarrow> setIsOpen lay False t = t\<lparr>isOpen := False\<rparr>"
  by (simp add: setIsOpen_def layoutEffect2_def commit2_def)


lemma setDropdownStatus_close:
  "menuInlineStyle s = Some style \<Longrightarrow> dropdownStatus s \<noteq> CLOSING \<Longrightarrow>
   setDropdownStatus options lay CLOSING s = s\<lparr>dropdownStatus := CLOSING\<rparr>"
  by (simp add: setDropdownStatus_def layoutEffect4_def commit4_keeps OPEN_DROPDOWN_STATUSES_def)

lemma setDropdownStatus_same: "setDropdownStatus options lay (dropdownStatus s) s = s"
  by (simp add: setDropdownStatus_def)


text \<open>The first click on the trigger, in the first example of the specification.\<close>

lemma first_click4:
  "run4 options [(exampleBelow, TriggerClick)] init4 =
     \<lparr>dropdownStatus = OPENING,
      menuInlineStyle = Some [''top'' \<mapsto> Px 530, ''left'' \<mapsto> Px 16, ''width'' \<mapsto> Px 240]\<rparr>"
  by (simp add: init4_def onTriggerClick_def CLOSED_DROPDOWN_STATUSES_def openDropdown_def
        setDropdownStatus_def commit4_def DropdownMenu4_def layoutEffect4_def
        OPEN_DROPDOWN_STATUSES_def recompute4_def menuRef4_def updateMenuCoordinates4_def
        or_zero_def setProperty_def exampleBelow_def)

lemma first_click2:
  "snd (step2 options exampleBelow TriggerClick init2) =
     \<lparr>isOpen = True,
      menuPosition = \<lparr>pos_top = Some 530, pos_bottom = None, pos_left = Some 16, pos_width = Some 240\<rparr>\<rparr>"
  by (simp add: init2_def setIsOpen_def commit2_def layoutEffect2_def recompute2_def menuRef2_def
        updateMenuCoordinates2_def or_zero_def exampleBelow_def)


subsection \<open>Pointer events outside and inside\<close>

text \<open>
  Claim C4. A \<open>mousedown\<close> or \<open>touchstart\<close> while the menu is open (\<open>isOpen\<close>, or a reached
  state in status \<open>OPEN\<close> or \<open>OPENING\<close>): with a target in neither the trigger nor the menu
  the dropdown closes (\<open>isOpen\<close> becomes false, the status becomes \<open>CLOSING\<close>) and nothing
  else changes; with a target in the trigger or in the menu the state stays as it is.
\<close>

theorem C4_pointer_down:
  "(isOpen t \<longrightarrow>
      (\<not> target_in_menu event \<and> \<not> target_in_dropdown event
         \<longrightarrow> snd (step2 options lay (PointerDown event) t) = t\<lparr>isOpen := False\<rparr>)
      \<and> (target_in_menu event \<or> target_in_dropdown event
         \<longrightarrow> snd (step2 options lay (PointerDown event) t) = t))
   \<and> (dropdownStatus (run4 options evs init4) \<in> set OPEN_DROPDOWN_STATUSES \<longrightarrow>
      (\<not> target_in_menu event \<and> \<not> target_in_dropdown event
         \<longrightarrow> snd (step4 options lay (PointerDown event) (run4 options evs init4))
               = (run4 options evs init4)\<lparr>dropdownStatus := CLOSING\<rparr>)
      \<and> (target_in_menu event \<or> target_in_dropdown event
         \<longrightarrow> snd (step4 options lay (PointerDown event) (run4 options evs init4))
               = run4 options evs init4))"
proof -
  let ?s = "run4 options evs init4"
  have two: "isOpen t \<Longrightarrow> snd (step2 options lay (PointerDown event) t)
      = (if target_in_menu event \<or> target_in_dropdown event then t else t\<lparr>isOpen := False\<rparr>)"
    by (simp add: listener2_def menuRef2_def setIsOpen_close) (simp add: setIsOpen_def)
  have four: "snd (step4 options lay (PointerDown event) ?s)
      = (if target_in_menu event \<or> target_in_dropdown event then ?s
         else ?s\<lparr>dropdownStatus := CLOSING\<rparr>)"
    if op: "dropdownStatus ?s \<in> set OPEN_DROPDOWN_STATUSES"
  proof -
    from op have nc: "dropdownStatus ?s \<noteq> CLOSED" "dropdownStatus ?s \<noteq> CLOSING"
      by (auto simp add: OPEN_DROPDOWN_STATUSES_def)
    with settled4_mounted [OF reachable4_settled, of options evs] obtain style where
      st: "menuInlineStyle ?s = Some style" by blast
    show ?thesis
      using st nc
      by (simp add: listener4_def menuRef4_def closeDropdown_def setDropdownStatus_close
            setDropdownStatus_same)
  qed
  from two four show ?thesis by simp
qed

theorem C4_pointer_down_witness:
  "snd (step2 App_options exampleBelow (PointerDown \<lparr>target_in_menu = False, target_in_dropdown = False\<rparr>)
      (snd (step2 App_options exampleBelow TriggerClick init2)))
     = \<lparr>isOpen = False,
        menuPosition = \<lparr>pos_top = Some 530, pos_bottom = None, pos_left = Some 16, pos_width = Some 240\<rparr>\<rparr>
   \<and> dropdownStatus (snd (step4 App_options exampleBelow
        (PointerDown \<lparr>target_in_menu = False, target_in_dropdown = False\<rparr>)
        (run4 App_options [(exampleBelow, TriggerClick)] init4))) = CLOSING
   \<and> isOpen (snd (step2 App_options exampleBelow (PointerDown \<lparr>target_in_menu = True, target_in_dropdown = False\<rparr>)
      (snd (step2 App_options exampleBelow TriggerClick init2))))
   \<and> dropdownStatus (snd (step4 App_options exampleBelow
        (PointerDown \<lparr>target_in_menu = False, target_in_dropdown = True\<rparr>)
        (run4 App_options [(exampleBelow, TriggerClick)] init4))) = OPENING"
proof -
  note outside = C4_pointer_down [where options = App_options and lay = exampleBelow
    and event = "\<lparr>target_in_menu = False, target_in_dropdown = False\<rparr>"
    and t = "snd (step2 App_options exampleBelow TriggerClick init2)"
    and evs = "[(exampleBelow, TriggerClick)]"]
  note in_menu = C4_pointer_down [where options = App_options and lay = exampleBelow
    and event = "\<lparr>target_in_menu = True, target_in_dropdown = False\<rparr>"
    and t = "snd (step2 App_options exampleBelow TriggerClick init2)"
    and evs = "[(exampleBelow, TriggerClick)]"]
  note in_trigger = C4_pointer_down [where options = App_options and lay = exampleBelow
    and event = "\<lparr>target_in_menu = False, target_in_dropdown = True\<rparr>"
    and t = "snd (step2 App_options exampleBelow TriggerClick init2)"
    and evs = "[(exampleBelow, TriggerClick)]"]
  have a: "snd (step2 App_options exampleBelow (PointerDown \<lparr>target_in_menu = False, target_in_dropdown = False\<rparr>)
      (snd (step2 App_options exampleBelow TriggerClick init2)))
     = \<lparr>isOpen = False,
        menuPosition = \<lparr>pos_top = Some 530, pos_bottom = None, pos_left = Some 16, pos_width = Some 240\<rparr>\<rparr>"
    using outside [THEN conjunct1] unfolding first_click2 by simp
  have b: "dropdownStatus (snd (step4 App_options exampleBelow
        (PointerDown \<lparr>target_in_menu = False, target_in_dropdown = False\<rparr>)
        (run4 App_options [(exampleBelow, TriggerClick)] init4))) = CLOSING"
    using outside [THEN conjunct2] unfolding first_click4 by (simp add: OPEN_DROPDOWN_STATUSES_def)
  have c: "isOpen (snd (step2 App_options exampleBelow (PointerDown \<lparr>target_in_menu = True, target_in_dropdown = False\<rparr>)
      (snd (step2 App_options exampleBelow TriggerClick init2))))"
    using in_menu [THEN conjunct1] unfolding first_click2 by simp
  have d: "dropdownStatus (snd (step4 App_options exampleBelow
        (PointerDown \<lparr>target_in_menu = False, target_in_dropdown = True\<rparr>)
        (run4 App_options [(exampleBelow, TriggerClick)] init4))) = OPENING"
    using in_trigger [THEN conjunct2] unfolding first_click4 by (simp add: OPEN_DROPDOWN_STATUSES_def)
  from a b c d show ?thesis by simp
qed

subsection \<open>Resize\<close>

text \<open>
  Claim C8. A resize leaves \<open>isOpen\<close> and the status as they are, in every state; while the
  menu is mounted, the position after it is the one \<open>updateMenuCoordinates\<close> computes from
  the trigger rectangle, the menu height and the window height at that moment.
\<close>

theorem C8_resize_keeps_state:
  "isOpen (snd (step2 options lay Resize t)) = isOpen t
   \<and> (isOpen t \<longrightarrow> menuPosition (snd (step2 options lay Resize t))
        = updateMenuCoordinates2 (Some (dropdownRect lay)) (Some (menuHeight lay)) (innerHeight lay)
            (menuPosition t))
   \<and> dropdownStatus (snd (step4 options lay Resize s)) = dropdownStatus s
   \<and> (menuInlineStyle s = Some style \<longrightarrow> menuInlineStyle (snd (step4 options lay Resize s))
        = map_option menu_style
            (updateMenuCoordinates4 (Some (dropdownRect lay))
               (Some \<lparr>menu_height = menuHeight lay, menu_style = style\<rparr>) (innerHeight lay)))"
  by (simp add: resizeListener2_def resizeListener4_def recompute2_def recompute4_def
        menuRef2_def menuRef4_def map_option_case)

text \<open>The menu opened in the first example, the window then resized to the second.\<close>

theorem C8_resize_keeps_state_witness:
  "snd (step2 App_options exampleAbove Resize (snd (step2 App_options exampleBelow TriggerClick init2)))
     = \<lparr>isOpen = True,
        menuPosition = \<lparr>pos_top = None, pos_bottom = Some 20, pos_left = Some 16, pos_width = Some 240\<rparr>\<rparr>
   \<and> dropdownStatus (snd (step4 App_options exampleAbove Resize
        (run4 App_options [(exampleBelow, TriggerClick)] init4))) = OPENING
   \<and> menuInlineStyle (snd (step4 App_options exampleAbove Resize
        (run4 App_options [(exampleBelow, TriggerClick)] init4)))
      = Some [''bottom'' \<mapsto> Px 20, ''left'' \<mapsto> Px 16, ''width'' \<mapsto> Px 240]"
proof -
  note c8 = C8_resize_keeps_state [where options = App_options and lay = exampleAbove
     and t = "snd (step2 App_options exampleBelow TriggerClick init2)"
     and s = "run4 App_options [(exampleBelow, TriggerClick)] init4"
     and style = "[''top'' \<mapsto> Px 530, ''left'' \<mapsto> Px 16, ''width'' \<mapsto> Px 240]"]
  have a: "snd (step2 App_options exampleAbove Resize (snd (step2 App_options exampleBelow TriggerClick init2)))
     = \<lparr>isOpen = True,
        menuPosition = \<lparr>pos_top = None, pos_bottom = Some 20, pos_left = Some 16, pos_width = Some 240\<rparr>\<rparr>"
    using c8 unfolding first_click2
    by (simp add: updateMenuCoordinates2_def or_zero_def exampleAbove_def
      resizeListener2_def recompute2_def)
  have b: "dropdownStatus (snd (step4 App_options exampleAbove Resize
        (run4 App_options [(exampleBelow, TriggerClick)] init4))) = OPENING"
    using c8 unfolding first_click4 by simp
  have c: "menuInlineStyle (snd (step4 App_options exampleAbove Resize
        (run4 App_options [(exampleBelow, TriggerClick)] init4)))
      = Some [''bottom'' \<mapsto> Px 20, ''left'' \<mapsto> Px 16, ''width'' \<mapsto> Px 240]"
    using c8 unfolding first_click4
    by (simp add: updateMenuCoordinates4_def or_zero_def exampleAbove_def
       setProperty_def fun_eq_iff)
  from a b c show ?thesis by simp
qed

subsection \<open>Selection\<close>

text \<open>
  Claim C7, as the code has it. A click on the button of an option while the dropdown is
  open (status \<open>OPEN\<close> or \<open>OPENING\<close>, or \<open>isOpen\<close>) calls \<open>onSelect\<close> and then reaches the
  click handler of the trigger, which starts closing: the status becomes \<open>CLOSING\<close>,
  \<open>isOpen\<close> becomes false. The call of \<open>onSelect\<close> is the only call made; no element is
  given the focus.
\<close>

theorem C7_selection_closes:
  "i < length options \<Longrightarrow>
     (dropdownStatus s \<in> set OPEN_DROPDOWN_STATUSES \<longrightarrow>
        dropdownStatus (snd (step4 options lay (OptionClick i) s)) = CLOSING
        \<and> fst (step4 options lay (OptionClick i) s) = [OnSelect (options ! i)])
   \<and> (isOpen t \<longrightarrow>
        \<not> isOpen (snd (step2 options lay (OptionClick i) t))
        \<and> fst (step2 options lay (OptionClick i) t) = [OnSelect (options ! i)])"
  by (auto simp add: DropdownMenu4_def renderedMenu2_def DropdownMenu2_def menuButtons_nth
        length_menuButtons setDropdownStatus_status setIsOpen_isOpen onTriggerClick_def
        OPEN_DROPDOWN_STATUSES_def CLOSED_DROPDOWN_STATUSES_def closeDropdown_def)

theorem C7_selection_closes_witness:
  "dropdownStatus (snd (step4 App_options exampleBelow (OptionClick 2)
      (run4 App_options [(exampleBelow, TriggerClick)] init4))) = CLOSING
   \<and> \<not> isOpen (snd (step2 App_options exampleBelow (OptionClick 2)
      (snd (step2 App_options exampleBelow TriggerClick init2))))"
  using C7_selection_closes [where i = 2 and options = App_options and lay = exampleBelow
     and s = "run4 App_options [(exampleBelow, TriggerClick)] init4"
     and t = "snd (step2 App_options exampleBelow TriggerClick init2)"]
  unfolding first_click4 first_click2
  by (simp add: App_options_def OPEN_DROPDOWN_STATUSES_def)

text \<open>
  The claim as the specification words it fails on the focus: the third option is chosen
  in the open menu of the second variant, \<open>onSelect\<close> is called with it, and the trigger is
  not given the focus.
\<close>

theorem C7_counterexample:
  "isOpen (snd (step2 App_options exampleBelow TriggerClick init2))
   \<and> fst (step2 App_options exampleBelow (OptionClick 2)
        (snd (step2 App_options exampleBelow TriggerClick init2)))
       = [OnSelect \<lparr>opt_id = ''3'', opt_label = ''Option 3''\<rparr>]
   \<and> Focus DropdownRef \<notin> set (fst (step2 App_options exampleBelow (OptionClick 2)
        (snd (step2 App_options exampleBelow TriggerClick init2))))"
  unfolding first_click2
  by (simp add: renderedMenu2_def DropdownMenu2_def menuButtons_def App_options_def)

subsection \<open>The status machine\<close>

lemma step4_status_click:
  "dropdownStatus (snd (step4 options lay TriggerClick s)) = onTriggerClick (dropdownStatus s)"
  by (simp add: setDropdownStatus_status)

lemma step4_status_animationend:
  "settled4 s \<Longrightarrow>
   dropdownStatus (snd (step4 options lay AnimationEnd s)) = onTransitionEnd (dropdownStatus s)"
  by (auto simp add: setDropdownStatus_status settled4_def onTransitionEnd_def split: option.splits)

lemma cycle4:
  "map (\<lambda>evs. dropdownStatus (run4 options evs init4))
      [[(l1, TriggerClick)],
       [(l1, TriggerClick), (l2, AnimationEnd)],
       [(l1, TriggerClick), (l2, AnimationEnd), (l3, TriggerClick)],
       [(l1, TriggerClick), (l2, AnimationEnd), (l3, TriggerClick), (l4, AnimationEnd)]]
     = [OPENING, OPEN, CLOSING, CLOSED]
   \<and> run4 options [(l1, TriggerClick), (l2, AnimationEnd), (l3, TriggerClick), (l4, AnimationEnd)] init4
     = init4"
  by (simp add: init4_def onTriggerClick_def onTransitionEnd_def CLOSED_DROPDOWN_STATUSES_def
        OPEN_DROPDOWN_STATUSES_def openDropdown_def closeDropdown_def
        setDropdownStatus_def commit4_def DropdownMenu4_def layoutEffect4_def
        recompute4_def menuRef4_def updateMenuCoordinates4_def Let_def)

text \<open>
  Claim C3, as the code has it. In a reached state of the first variant, a click on the
  trigger and an \<open>animationend\<close> change the status by the four transitions of the
  specification and by two more: a click in \<open>OPENING\<close> gives \<open>CLOSING\<close>, a click in
  \<open>CLOSING\<close> gives \<open>OPENING\<close>; otherwise the status stays. From the initial state, a click,
  the end of the animation, a second click and the end of the animation pass through
  \<open>OPENING\<close>, \<open>OPEN\<close>, \<open>CLOSING\<close> and lead back to the initial state, in any layouts.
\<close>

theorem C3_status_transitions:
  "(ev = TriggerClick \<or> ev = AnimationEnd \<longrightarrow>
      dropdownStatus (snd (step4 options lay ev (run4 options evs init4))) =
        (case spec_transition (dropdownStatus (run4 options evs init4)) ev of
           Some status \<Rightarrow> status
         | None \<Rightarrow>
             (if ev = TriggerClick \<and> dropdownStatus (run4 options evs init4) = OPENING then CLOSING
              else if ev = TriggerClick \<and> dropdownStatus (run4 options evs init4) = CLOSING then OPENING
              else dropdownStatus (run4 options evs init4))))
   \<and> map (\<lambda>evs. dropdownStatus (run4 options evs init4))
      [[(l1, TriggerClick)],
       [(l1, TriggerClick), (l2, AnimationEnd)],
       [(l1, TriggerClick), (l2, AnimationEnd), (l3, TriggerClick)],
       [(l1, TriggerClick), (l2, AnimationEnd), (l3, TriggerClick), (l4, AnimationEnd)]]
     = [OPENING, OPEN, CLOSING, CLOSED]
   \<and> run4 options [(l1, TriggerClick), (l2, AnimationEnd), (l3, TriggerClick), (l4, AnimationEnd)] init4
     = init4"
proof -
  let ?s = "run4 options evs init4"
  have click: "dropdownStatus (snd (step4 options lay TriggerClick ?s)) =
        (case spec_transition (dropdownStatus ?s) TriggerClick of
           Some status \<Rightarrow> status
         | None \<Rightarrow>
             (if dropdownStatus ?s = OPENING then CLOSING
              else if dropdownStatus ?s = CLOSING then OPENING
              else dropdownStatus ?s))"
    unfolding step4_status_click
    by (cases "dropdownStatus ?s")
       (simp_all add: onTriggerClick_def spec_transition_def CLOSED_DROPDOWN_STATUSES_def
          OPEN_DROPDOWN_STATUSES_def openDropdown_def closeDropdown_def)
  have anim: "dropdownStatus (snd (step4 options lay AnimationEnd ?s)) =
        (case spec_transition (dropdownStatus ?s) AnimationEnd of
           Some status \<Rightarrow> status
         | None \<Rightarrow> dropdownStatus ?s)"
    unfolding step4_status_animationend [OF reachable4_settled]
    by (cases "dropdownStatus ?s") (simp_all add: onTransitionEnd_def spec_transition_def)
  from click anim have
    "ev = TriggerClick \<or> ev = AnimationEnd \<longrightarrow>
      dropdownStatus (snd (step4 options lay ev ?s)) =
        (case spec_transition (dropdownStatus ?s) ev of
           Some status \<Rightarrow> status
         | None \<Rightarrow>
             (if ev = TriggerClick \<and> dropdownStatus ?s = OPENING then CLOSING
              else if ev = TriggerClick \<and> dropdownStatus ?s = CLOSING then OPENING
              else dropdownStatus ?s))"
    by auto
  from this cycle4 [of options l1 l2 l3 l4] show ?thesis by (rule conjI)
qed

theorem C3_status_transitions_witness:
  "dropdownStatus (snd (step4 App_options exampleBelow AnimationEnd
      (run4 App_options [(exampleBelow, TriggerClick)] init4))) = OPEN
   \<and> run4 App_options [(exampleBelow, TriggerClick), (exampleBelow, AnimationEnd),
        (exampleBelow, TriggerClick), (exampleBelow, AnimationEnd)] init4 = init4"
proof -
  note c3 = C3_status_transitions [where ev = AnimationEnd and options = App_options
     and lay = exampleBelow and evs = "[(exampleBelow, TriggerClick)]"
     and ?l1.0 = exampleBelow and ?l2.0 = exampleBelow and ?l3.0 = exampleBelow and ?l4.0 = exampleBelow]
  have ev: "AnimationEnd = TriggerClick \<or> AnimationEnd = AnimationEnd" by simp
  have a: "dropdownStatus (snd (step4 App_options exampleBelow AnimationEnd
      (run4 App_options [(exampleBelow, TriggerClick)] init4))) = OPEN"
    using c3 [THEN conjunct1, THEN mp, OF ev] unfolding first_click4
    by (simp add: spec_transition_def)
  from a c3 [THEN conjunct2, THEN conjunct2] show ?thesis by (rule conjI)
qed

text \<open>
  The claim as the specification words it fails on "exactly": after the first click the
  status is \<open>OPENING\<close>, a second click then gives \<open>CLOSING\<close>, and the state machine of the
  specification has no transition for a click in \<open>OPENING\<close>.
\<close>

theorem C3_counterexample:
  "dropdownStatus (run4 App_options [(exampleBelow, TriggerClick)] init4) = OPENING
   \<and> dropdownStatus (snd (step4 App_options exampleBelow TriggerClick
        (run4 App_options [(exampleBelow, TriggerClick)] init4))) = CLOSING
   \<and> spec_transition OPENING TriggerClick = None"
  unfolding first_click4
  by (simp add: spec_transition_def setDropdownStatus_status onTriggerClick_def
        CLOSED_DROPDOWN_STATUSES_def OPEN_DROPDOWN_STATUSES_def closeDropdown_def)

subsection \<open>The position while the menu is rendered\<close>







end
